theory Spec2Isabelle
  imports Main "HOL-Library.Sublist" "HOL-Library.AList"
begin

section \<open>Python values\<close>

text \<open>
  The metadata column holds either a JSON text or an already decoded structure, so the
  values that reach \<open>parse_metadata\<close> are the JSON-shaped Python objects: \<open>None\<close>,
  booleans, integers, floats, strings, lists and dictionaries with string keys. A float is
  carried by its printed form; no operation of the program looks inside one. A dictionary is
  an association list read with \<open>map_of\<close>, each key listed once. A character of a
  string is a code point below 256.
\<close>

datatype pyval =
    PNone
  | PBool bool
  | PInt int
  | PFloat string
  | PStr string
  | PList "pyval list"
  | PDict "(string \<times> pyval) list"

text \<open>The exceptions that the modelled code can raise; all are subclasses of \<open>Exception\<close>.\<close>

datatype py_error =
    JSONDecodeError
  | AttributeError
  | TypeError
  | ValueError
  | ReError
  | OtherException string

type_synonym qa_pair = "pyval \<times> pyval"

text \<open>\<open>json.loads\<close> belongs to the standard library: it is a parameter of the model.\<close>

type_synonym json_loads = "string \<Rightarrow> py_error + pyval"

section \<open>parse\_metadata\<close>

definition NA :: pyval where
  "NA = PStr ''N/A''"

definition name_question :: string where
  "name_question = ''What's your full name''"

text \<open>\<open>d.get(k, default)\<close> on a dictionary.\<close>

definition dict_get :: "(string \<times> pyval) list \<Rightarrow> string \<Rightarrow> pyval \<Rightarrow> pyval" where
  "dict_get d k dflt = (case map_of d k of None \<Rightarrow> dflt | Some v \<Rightarrow> v)"

text \<open>
  \<open>for item in plan\<close>: a list yields its elements, a dictionary its keys, a string its
  characters; any other JSON value is not iterable and raises \<open>TypeError\<close>.
\<close>

fun py_iter :: "pyval \<Rightarrow> py_error + pyval list" where
  "py_iter (PList xs) = Inr xs"
| "py_iter (PDict d) = Inr (map (\<lambda>kv. PStr (fst kv)) d)"
| "py_iter (PStr s) = Inr (map (\<lambda>c. PStr [c]) s)"
| "py_iter v = Inl TypeError"

text \<open>
  Line 41, the list comprehension
  \<^verbatim>\<open>[(item.get("question", "N/A"), item.get("answer", "N/A")) for item in plan if isinstance(item, dict)]\<close>.
\<close>

fun qa_pairs_of :: "pyval list \<Rightarrow> qa_pair list" where
  "qa_pairs_of [] = []"
| "qa_pairs_of (PDict d # items) =
     (dict_get d ''question'' NA, dict_get d ''answer'' NA) # qa_pairs_of items"
| "qa_pairs_of (v # items) = qa_pairs_of items"

text \<open>
  Line 42, \<^verbatim>\<open>next((item.get("answer") for item in plan if item.get("question") == "What's your full name"), "N/A")\<close>.
  The generator is consumed from the left until its first yield. Its condition calls
  \<open>item.get\<close> on every element it reaches, and only a dictionary has that method:
  any other element raises \<open>AttributeError\<close>. \<open>item.get("answer")\<close> has no default,
  so an absent key gives \<open>None\<close>.
\<close>

fun name_scan :: "pyval list \<Rightarrow> py_error + pyval" where
  "name_scan [] = Inr NA"
| "name_scan (PDict d # items) =
     (if dict_get d ''question'' PNone = PStr name_question
      then Inr (dict_get d ''answer'' PNone)
      else name_scan items)"
| "name_scan (v # items) = Inl AttributeError"

text \<open>Lines 40 to 43, on the decoded value \<open>data\<close>; \<open>data.get\<close> exists on a dictionary only.\<close>

definition extract_fields :: "pyval \<Rightarrow> py_error + pyval \<times> qa_pair list" where
  "extract_fields data =
     (case data of
        PDict d \<Rightarrow>
          (case py_iter (dict_get d ''plan'' (PList [])) of
             Inl e \<Rightarrow> Inl e
           | Inr plan \<Rightarrow>
               (let qa_pairs = qa_pairs_of plan
                in case name_scan plan of
                     Inl e \<Rightarrow> Inl e
                   | Inr name \<Rightarrow> Inr (name, qa_pairs)))
      | _ \<Rightarrow> Inl AttributeError)"

text \<open>The body of the \<open>try\<close> block, lines 33 to 43: \<open>Inl\<close> is a raised exception.\<close>

definition parse_try :: "json_loads \<Rightarrow> pyval \<Rightarrow> py_error + pyval \<times> qa_pair list" where
  "parse_try loads metadata_value =
     (case metadata_value of
        PStr s \<Rightarrow> (case loads s of Inl e \<Rightarrow> Inl e | Inr data \<Rightarrow> extract_fields data)
      | PDict d \<Rightarrow> extract_fields (PDict d)
      | _ \<Rightarrow> Inr (NA, []))"

text \<open>The whole function: \<open>except Exception\<close> turns every raised exception into the sentinel.\<close>

definition parse_metadata :: "json_loads \<Rightarrow> pyval \<Rightarrow> pyval \<times> qa_pair list" where
  "parse_metadata loads metadata_value =
     (case parse_try loads metadata_value of
        Inl e \<Rightarrow> (NA, [])
      | Inr r \<Rightarrow> r)"

section \<open>A decoder for a subset of JSON\<close>

text \<open>
  Every theorem below holds for any decoder \<open>loads\<close>. Where an example runs the program on
  a JSON text, it uses this decoder of a subset of JSON: objects, arrays, strings without
  escape sequences, integers, \<open>true\<close>, \<open>false\<close> and \<open>null\<close>, with white space between
  tokens. On the documents of the subset it returns what \<open>json.loads\<close> returns (of a
  repeated key the last value is kept); any other text is reported as a decode error, so it
  is used on documents of the subset and on texts that are not JSON only. The recursion is
  bounded by fuel, twice the length of the text.
\<close>

definition is_ws :: "char \<Rightarrow> bool" where
  "is_ws c = (c = CHR '' '' \<or> c = CHR 0x09 \<or> c = CHR 0x0A \<or> c = CHR 0x0D)"

definition skip_ws :: "string \<Rightarrow> string" where
  "skip_ws s = dropWhile is_ws s"

text \<open>The characters of a string up to its closing quote.\<close>

fun scan_string :: "string \<Rightarrow> (string \<times> string) option" where
  "scan_string [] = None"
| "scan_string (c # cs) =
     (if c = CHR 0x22 then Some ([], cs)
      else if c = CHR 0x5C \<or> (of_char c :: nat) < 32 then None
      else map_option (\<lambda>(t, r). (c # t, r)) (scan_string cs))"

definition is_digit :: "char \<Rightarrow> bool" where
  "is_digit c = (c \<in> set ''0123456789'')"

definition digit_val :: "char \<Rightarrow> nat" where
  "digit_val c = length (takeWhile (\<lambda>d. d \<noteq> c) ''0123456789'')"

definition nat_of_digits :: "string \<Rightarrow> nat" where
  "nat_of_digits ds = foldl (\<lambda>n c. 10 * n + digit_val c) 0 ds"

definition scan_int :: "string \<Rightarrow> (pyval \<times> string) option" where
  "scan_int s =
     (let neg = (s \<noteq> [] \<and> hd s = CHR ''-'');
          t = (if neg then tl s else s);
          ds = takeWhile is_digit t;
          r = dropWhile is_digit t
      in if ds = [] \<or> (length ds > 1 \<and> hd ds = CHR ''0'')
            \<or> (r \<noteq> [] \<and> hd r \<in> set ''.eE'') then None
         else Some (PInt (if neg then - int (nat_of_digits ds) else int (nat_of_digits ds)), r))"

fun strip_prefix :: "string \<Rightarrow> string \<Rightarrow> string option" where
  "strip_prefix [] s = Some s"
| "strip_prefix (p # ps) [] = None"
| "strip_prefix (p # ps) (c # cs) = (if p = c then strip_prefix ps cs else None)"

fun json_value :: "nat \<Rightarrow> string \<Rightarrow> (pyval \<times> string) option"
and json_elements :: "nat \<Rightarrow> string \<Rightarrow> (pyval list \<times> string) option"
and json_members :: "nat \<Rightarrow> string \<Rightarrow> ((string \<times> pyval) list \<times> string) option" where
  "json_value 0 s = None"
| "json_value (Suc n) s =
     (case skip_ws s of
        [] \<Rightarrow> None
      | c # cs \<Rightarrow>
          if c = CHR 0x22 then map_option (\<lambda>(t, r). (PStr t, r)) (scan_string cs)
          else if c = CHR ''['' then
            (case skip_ws cs of
               [] \<Rightarrow> None
             | c' # r \<Rightarrow>
                 if c' = CHR '']'' then Some (PList [], r)
                 else map_option (\<lambda>(vs, r). (PList vs, r)) (json_elements n cs))
          else if c = CHR ''{'' then
            (case skip_ws cs of
               [] \<Rightarrow> None
             | c' # r \<Rightarrow>
                 if c' = CHR ''}'' then Some (PDict [], r)
                 else map_option (\<lambda>(kvs, r). (PDict (foldl (\<lambda>d (k, v). AList.update k v d) [] kvs), r))
                        (json_members n cs))
          else
            (case strip_prefix ''null'' (c # cs) of
               Some r \<Rightarrow> Some (PNone, r)
             | None \<Rightarrow>
                 (case strip_prefix ''true'' (c # cs) of
                    Some r \<Rightarrow> Some (PBool True, r)
                  | None \<Rightarrow>
                      (case strip_prefix ''false'' (c # cs) of
                         Some r \<Rightarrow> Some (PBool False, r)
                       | None \<Rightarrow> scan_int (c # cs)))))"
| "json_elements 0 s = None"
| "json_elements (Suc n) s =
     (case json_value n s of
        None \<Rightarrow> None
      | Some (v, r) \<Rightarrow>
          (case skip_ws r of
             [] \<Rightarrow> None
           | c # r' \<Rightarrow>
               if c = CHR '','' then map_option (\<lambda>(vs, r''). (v # vs, r'')) (json_elements n r')
               else if c = CHR '']'' then Some ([v], r')
               else None))"
| "json_members 0 s = None"
| "json_members (Suc n) s =
     (case skip_ws s of
        [] \<Rightarrow> None
      | q # s1 \<Rightarrow>
          if q \<noteq> CHR 0x22 then None
          else
            (case scan_string s1 of
               None \<Rightarrow> None
             | Some (k, s2) \<Rightarrow>
                 (case skip_ws s2 of
                    [] \<Rightarrow> None
                  | c # s3 \<Rightarrow>
                      if c \<noteq> CHR '':'' then None
                      else
                        (case json_value n s3 of
                           None \<Rightarrow> None
                         | Some (v, s4) \<Rightarrow>
                             (case skip_ws s4 of
                                [] \<Rightarrow> None
                              | c' # s5 \<Rightarrow>
                                  if c' = CHR '','' then
                                    map_option (\<lambda>(kvs, r). ((k, v) # kvs, r)) (json_members n s5)
                                  else if c' = CHR ''}'' then Some ([(k, v)], s5)
                                  else None)))))"

definition json_loads_subset :: "string \<Rightarrow> py_error + pyval" where
  "json_loads_subset s =
     (case json_value (2 * length s + 2) s of
        None \<Rightarrow> Inl JSONDecodeError
      | Some (v, r) \<Rightarrow> if skip_ws r = [] then Inr v else Inl JSONDecodeError)"

section \<open>The response table\<close>

text \<open>
  The identifier column is an integer key or a text key; \<open>astype(str)\<close> prints it the way
  Python's \<open>str\<close> does.
\<close>

datatype ident = IdInt int | IdStr string

function str_of_nat :: "nat \<Rightarrow> string" where
  "str_of_nat n =
     (if n < 10 then [''0123456789'' ! n]
      else str_of_nat (n div 10) @ [''0123456789'' ! (n mod 10)])"
  by pat_completeness auto
termination
  by (relation "measure (\<lambda>n. n)") auto

definition str_of_int :: "int \<Rightarrow> string" where
  "str_of_int i = (if i < 0 then CHR ''-'' # str_of_nat (nat (- i)) else str_of_nat (nat i))"

fun str_of_ident :: "ident \<Rightarrow> string" where
  "str_of_ident (IdInt i) = str_of_int i"
| "str_of_ident (IdStr s) = s"

text \<open>
  A row of the frame after line 58: the columns the program reads (\<open>id\<close>, \<open>created_at\<close>,
  \<open>metadata\<close>), the remaining columns of \<open>SELECT *\<close>, and the two derived columns.
  \<open>created_at\<close> is a naive \<open>datetime64[ns]\<close> timestamp: nanoseconds since the epoch.
  A \<open>datetime.date\<close> is a day number, days since the epoch.
\<close>

record db_row =
  id_field :: ident
  created_at :: int
  metadata :: pyval
  other_columns :: "(string \<times> pyval) list"

record row = db_row +
  name :: pyval
  qa_pairs :: "qa_pair list"

text \<open>
  Line 58, \<^verbatim>\<open>df["name"], df["qa_pairs"] = zip(*df["metadata"].map(parse_metadata))\<close>.
  On a table without rows \<open>zip\<close> yields nothing and the unpacking into two targets
  raises \<open>ValueError\<close>.
\<close>

definition add_parsed :: "json_loads \<Rightarrow> db_row \<Rightarrow> row" where
  "add_parsed loads r =
     (let parsed = parse_metadata loads (metadata r)
      in \<lparr>id_field = id_field r, created_at = created_at r, metadata = metadata r,
          other_columns = other_columns r, name = fst parsed, qa_pairs = snd parsed\<rparr>)"

definition process_df :: "json_loads \<Rightarrow> db_row list \<Rightarrow> py_error + row list" where
  "process_df loads df = (if df = [] then Inl ValueError else Inr (map (add_parsed loads) df))"

section \<open>Boolean masks\<close>

text \<open>\<open>a & b\<close> and \<open>a | b\<close> on boolean series, and the selection \<open>df[mask]\<close>.\<close>

definition mask_and :: "bool list \<Rightarrow> bool list \<Rightarrow> bool list" where
  "mask_and a b = map2 (\<and>) a b"

definition mask_or :: "bool list \<Rightarrow> bool list \<Rightarrow> bool list" where
  "mask_or a b = map2 (\<or>) a b"

definition mask_select :: "bool list \<Rightarrow> 'a list \<Rightarrow> 'a list" where
  "mask_select keep df = map snd (filter fst (zip keep df))"

section \<open>Date range filter\<close>

text \<open>\<open>.dt.date\<close>: the calendar day of a timestamp.\<close>

definition dt_date :: "int \<Rightarrow> int" where
  "dt_date ts = ts div 86400000000000"

text \<open>
  Line 68,
  \<^verbatim>\<open>df[(df["created_at"].dt.date >= start_date) & (df["created_at"].dt.date <= end_date)]\<close>.
\<close>

definition date_filtered :: "int \<Rightarrow> int \<Rightarrow> row list \<Rightarrow> row list" where
  "date_filtered start_date end_date df =
     mask_select
       (mask_and (map (\<lambda>d. d \<ge> start_date) (map dt_date (map created_at df)))
                 (map (\<lambda>d. d \<le> end_date) (map dt_date (map created_at df))))
       df"

section \<open>Search filter\<close>

text \<open>
  Three behaviours of the libraries are parameters of the model: what \<open>re.compile\<close> does
  with a pattern outside the modelled fragment (it may raise \<open>re.error\<close>), whether the
  \<open>.str\<close> accessor accepts a column in the cases the model leaves open, and the case
  folding under which \<open>re.IGNORECASE\<close> compares two characters.
\<close>

record library =
  re_other :: "string \<Rightarrow> bool \<Rightarrow> py_error + (string \<Rightarrow> bool)"
  str_accepts_other :: "pyval list \<Rightarrow> bool"
  casefold :: "char \<Rightarrow> char"

text \<open>
  \<open>Series.str.contains(pat, case, na)\<close> is called without \<open>regex=False\<close>, so \<open>pat\<close> is
  compiled as a regular expression (with \<open>re.IGNORECASE\<close> when \<open>case=False\<close>) and every
  string element is tested with \<open>search\<close>. The model covers the patterns built from
  ordinary characters and the wildcard \<open>.\<close>, which matches any character but a newline.
\<close>

definition re_metachars :: string where
  "re_metachars = ''^$*+?{}[]|()'' @ [CHR 0x5C]"

definition re_simple :: "string \<Rightarrow> bool" where
  "re_simple pat = list_all (\<lambda>c. c \<notin> set re_metachars) pat"

fun re_match_here :: "(char \<Rightarrow> char) \<Rightarrow> bool \<Rightarrow> string \<Rightarrow> string \<Rightarrow> bool" where
  "re_match_here fc ignorecase [] s = True"
| "re_match_here fc ignorecase (p # ps) [] = False"
| "re_match_here fc ignorecase (p # ps) (c # cs) =
     ((if p = CHR ''.'' then c \<noteq> CHR 0x0A
       else if ignorecase then fc p = fc c
       else p = c)
      \<and> re_match_here fc ignorecase ps cs)"

fun re_search :: "(char \<Rightarrow> char) \<Rightarrow> bool \<Rightarrow> string \<Rightarrow> string \<Rightarrow> bool" where
  "re_search fc ignorecase pat [] = re_match_here fc ignorecase pat []"
| "re_search fc ignorecase pat (c # cs) =
     (re_match_here fc ignorecase pat (c # cs) \<or> re_search fc ignorecase pat cs)"

definition re_compile :: "library \<Rightarrow> string \<Rightarrow> bool \<Rightarrow> py_error + (string \<Rightarrow> bool)" where
  "re_compile lib pat ignorecase =
     (if re_simple pat then Inr (re_search (casefold lib) ignorecase pat)
      else re_other lib pat ignorecase)"

text \<open>
  The \<open>.str\<close> accessor inspects the column before any element is tested and raises
  \<open>AttributeError\<close> (``Can only use .str accessor with string values'') unless the column
  looks like text. A column that holds a string is accepted. A column of numbers, or of
  numbers and missing values, is refused: it is stored as an integer or float column, or
  inferred as one. For a column without any string and without that shape (no row at all,
  missing values only, booleans, lists) the answer depends on how the column is stored, and
  is left to the parameter.
\<close>

fun is_str :: "pyval \<Rightarrow> bool" where
  "is_str (PStr s) = True"
| "is_str v = False"

fun is_number :: "pyval \<Rightarrow> bool" where
  "is_number (PInt i) = True"
| "is_number (PFloat f) = True"
| "is_number v = False"

definition str_accessor :: "library \<Rightarrow> pyval list \<Rightarrow> py_error + unit" where
  "str_accessor lib series =
     (if list_ex is_str series then Inr ()
      else if list_ex is_number series \<and> list_all (\<lambda>v. is_number v \<or> v = PNone) series
        then Inl AttributeError
      else if str_accepts_other lib series then Inr ()
      else Inl AttributeError)"

text \<open>
  \<open>series.str.contains(pat, case=..., na=...)\<close> on a column of Python objects: the accessor,
  then the compilation of the pattern, then the test of every element. An element that is
  not a string (a missing name, a number) is not searched: its result is the value of
  \<open>na\<close>.
\<close>

definition str_contains ::
    "library \<Rightarrow> string \<Rightarrow> bool \<Rightarrow> bool \<Rightarrow> pyval list \<Rightarrow> py_error + bool list" where
  "str_contains lib pat case_sensitive na series =
     (case str_accessor lib series of
        Inl e \<Rightarrow> Inl e
      | Inr u \<Rightarrow>
          (case re_compile lib pat (\<not> case_sensitive) of
             Inl e \<Rightarrow> Inl e
           | Inr f \<Rightarrow> Inr (map (\<lambda>v. case v of PStr s \<Rightarrow> f s | _ \<Rightarrow> na) series)))"

text \<open>
  \<open>series.astype(str).str.contains(pat)\<close>: \<open>astype(str)\<close> gives a text column, which the
  accessor accepts also when it has no row, and every element is searched.
\<close>

definition astype_str :: "ident list \<Rightarrow> string list" where
  "astype_str series = map str_of_ident series"

definition text_contains ::
    "library \<Rightarrow> string \<Rightarrow> bool \<Rightarrow> string list \<Rightarrow> py_error + bool list" where
  "text_contains lib pat case_sensitive series =
     (case re_compile lib pat (\<not> case_sensitive) of
        Inl e \<Rightarrow> Inl e
      | Inr f \<Rightarrow> Inr (map f series))"

text \<open>
  Lines 74 to 78. An empty \<open>search_term\<close> is falsy and leaves the frame as it is. The second
  \<open>contains\<close> has the default \<open>case=True\<close>.
\<close>

definition search_filtered :: "library \<Rightarrow> string \<Rightarrow> row list \<Rightarrow> py_error + row list" where
  "search_filtered lib search_term df =
     (if search_term = [] then Inr df
      else
        (case str_contains lib search_term False False (map name df) of
           Inl e \<Rightarrow> Inl e
         | Inr by_name \<Rightarrow>
             (case text_contains lib search_term True (astype_str (map id_field df)) of
                Inl e \<Rightarrow> Inl e
              | Inr by_id \<Rightarrow> Inr (mask_select (mask_or by_name by_id) df))))"

text \<open>Lines 68 to 78: the date filter, then the search filter.\<close>

definition filtered_df ::
    "library \<Rightarrow> int \<Rightarrow> int \<Rightarrow> string \<Rightarrow> row list \<Rightarrow> py_error + row list" where
  "filtered_df lib start_date end_date search_term df =
     search_filtered lib search_term (date_filtered start_date end_date df)"

section \<open>Vocabulary of the properties\<close>

text \<open>\<open>isinstance(v, dict)\<close> and \<open>isinstance(v, list)\<close>.\<close>

fun is_dict :: "pyval \<Rightarrow> bool" where
  "is_dict (PDict d) = True"
| "is_dict v = False"

fun is_list :: "pyval \<Rightarrow> bool" where
  "is_list (PList xs) = True"
| "is_list v = False"

text \<open>An element of the plan whose \<open>question\<close> is the name question.\<close>

fun name_matches :: "pyval \<Rightarrow> bool" where
  "name_matches (PDict d) = (map_of d ''question'' = Some (PStr name_question))"
| "name_matches v = False"

text \<open>
  The name scan meets an element that is not a mapping before any element with the name
  question.
\<close>

definition stops_at_non_mapping :: "pyval list \<Rightarrow> bool" where
  "stops_at_non_mapping items =
     (\<exists>pre x post. items = pre @ x # post
        \<and> list_all (\<lambda>y. is_dict y \<and> \<not> name_matches y) pre \<and> \<not> is_dict x)"

text \<open>
  The metadata value is the dictionary \<open>d\<close>, or a text that the decoder turns into \<open>d\<close>:
  the two ways in which lines 33 to 36 reach line 40 with a mapping.
\<close>

definition decodes_to :: "json_loads \<Rightarrow> pyval \<Rightarrow> (string \<times> pyval) list \<Rightarrow> bool" where
  "decodes_to loads v d =
     (case v of PStr s \<Rightarrow> loads s = Inr (PDict d) | PDict d' \<Rightarrow> d' = d | _ \<Rightarrow> False)"

text \<open>A query without any special character of the pattern language.\<close>

definition re_literal :: "string \<Rightarrow> bool" where
  "re_literal pat = list_all (\<lambda>c. c \<noteq> CHR ''.'' \<and> c \<notin> set re_metachars) pat"

text \<open>
  The search filter in the specification's words: the name contains the query as a
  substring ignoring case, that is after case folding, or the string form of the
  identifier contains the query as a literal substring.
\<close>

definition contains_ignoring_case :: "(char \<Rightarrow> char) \<Rightarrow> string \<Rightarrow> string \<Rightarrow> bool" where
  "contains_ignoring_case fc q s = sublist (map fc q) (map fc s)"

definition spec_search_keeps :: "(char \<Rightarrow> char) \<Rightarrow> string \<Rightarrow> row \<Rightarrow> bool" where
  "spec_search_keeps fc q r =
     ((case name r of PStr s \<Rightarrow> contains_ignoring_case fc q s | _ \<Rightarrow> False)
      \<or> sublist q (str_of_ident (id_field r)))"

section \<open>Example data\<close>

text \<open>
  The examples are ASCII texts, where case folding maps the letters A to Z to a to z, and
  their queries and columns lie in the modelled part, so that the other two parameters are
  not consulted: this stand-in rejects whatever is left to them.
\<close>

definition ascii_lower :: "char \<Rightarrow> char" where
  "ascii_lower c =
     (case map_of (zip ''ABCDEFGHIJKLMNOPQRSTUVWXYZ'' ''abcdefghijklmnopqrstuvwxyz'') c of
        None \<Rightarrow> c
      | Some l \<Rightarrow> l)"

definition re_unsupported :: "string \<Rightarrow> bool \<Rightarrow> py_error + (string \<Rightarrow> bool)" where
  "re_unsupported pat ignorecase = Inl ReError"

definition str_refused :: "pyval list \<Rightarrow> bool" where
  "str_refused series = False"

definition example_library :: library where
  "example_library =
     \<lparr>re_other = re_unsupported, str_accepts_other = str_refused, casefold = ascii_lower\<rparr>"

definition doc_alice :: string where
  "doc_alice = ''{\"plan\":[{\"question\":\"What's your full name\",\"answer\":\"Alice\"},{\"question\":\"Age\",\"answer\":\"30\"}]}''"

definition doc_jane :: string where
  "doc_jane = ''{\"plan\": [{\"question\": \"What's your full name\", \"answer\": \"Jane Doe\"}]}''"

definition doc_age :: string where
  "doc_age = ''{\"plan\":[{\"question\":\"Age\",\"answer\":\"30\"}]}''"

definition doc_number_first :: string where
  "doc_number_first = ''{\"plan\": [1, {\"question\": \"Q\", \"answer\": \"A\"}]}''"

definition doc_jane_after_number :: string where
  "doc_jane_after_number = ''{\"plan\": [5, {\"question\": \"What's your full name\", \"answer\": \"Jane Doe\"}]}''"

definition doc_no_answer :: string where
  "doc_no_answer = ''{\"plan\": [{\"question\": \"What's your full name\"}]}''"

definition doc_no_answer_after_number :: string where
  "doc_no_answer_after_number = ''{\"plan\": [5, {\"question\": \"What's your full name\"}]}''"

definition doc_plan_number :: string where
  "doc_plan_number = ''{\"plan\": 5}''"

text \<open>
  Three stored responses: submitted at the first instant of day 19675, at the last
  nanosecond of day 19677 and at the first instant of day 19678.
\<close>

definition example_db :: "db_row list" where
  "example_db =
     [\<lparr>id_field = IdInt 17, created_at = 1699920000000000000, metadata = PStr doc_jane,
       other_columns = []\<rparr>,
      \<lparr>id_field = IdInt 42, created_at = 1700179199999999999, metadata = PStr doc_no_answer,
       other_columns = []\<rparr>,
      \<lparr>id_field = IdInt 108, created_at = 1700179200000000000, metadata = PStr ''not json'',
       other_columns = []\<rparr>]"

definition row_jane :: row where
  "row_jane =
     \<lparr>id_field = IdInt 17, created_at = 1699920000000000000, metadata = PStr doc_jane,
      other_columns = [], name = PStr ''Jane Doe'',
      qa_pairs = [(PStr name_question, PStr ''Jane Doe'')]\<rparr>"

definition row_unnamed :: row where
  "row_unnamed =
     \<lparr>id_field = IdInt 42, created_at = 1700179199999999999, metadata = PStr doc_no_answer,
      other_columns = [], name = PNone, qa_pairs = [(PStr name_question, NA)]\<rparr>"

definition row_broken :: row where
  "row_broken =
     \<lparr>id_field = IdInt 108, created_at = 1700179200000000000, metadata = PStr ''not json'',
      other_columns = [], name = NA, qa_pairs = []\<rparr>"

text \<open>The frame that line 58 makes of the three stored responses.\<close>

definition example_df :: "row list" where
  "example_df = [row_jane, row_unnamed, row_broken]"

text \<open>
  Two stored responses whose frame has no string in its name column: one without an
  answer to the name question, one whose answer is the number 5.
\<close>

definition doc_name_five :: string where
  "doc_name_five = ''{\"plan\": [{\"question\": \"What's your full name\", \"answer\": 5}]}''"

definition numeric_db :: "db_row list" where
  "numeric_db =
     [\<lparr>id_field = IdInt 42, created_at = 1700179199999999999, metadata = PStr doc_no_answer,
       other_columns = []\<rparr>,
      \<lparr>id_field = IdInt 15, created_at = 1700179200000000000, metadata = PStr doc_name_five,
       other_columns = []\<rparr>]"

definition row_five :: row where
  "row_five =
     \<lparr>id_field = IdInt 15, created_at = 1700179200000000000, metadata = PStr doc_name_five,
      other_columns = [], name = PInt 5, qa_pairs = [(PStr name_question, PInt 5)]\<rparr>"

definition numeric_df :: "row list" where
  "numeric_df = [row_unnamed, row_five]"

section \<open>Properties of parse\_metadata\<close>

subsection \<open>The two passes over the plan\<close>

lemma qa_pairs_of_length: "length (qa_pairs_of items) = length (filter is_dict items)"
  by (induction items rule: qa_pairs_of.induct) simp_all

lemma qa_pairs_of_append: "qa_pairs_of (xs @ ys) = qa_pairs_of xs @ qa_pairs_of ys"
  by (induction xs rule: qa_pairs_of.induct) simp_all

lemma name_scan_mappings: "list_all is_dict items \<Longrightarrow> \<exists>n. name_scan items = Inr n"
  by (induction items rule: name_scan.induct) simp_all

lemma name_scan_no_match:
  "\<not> list_ex name_matches items \<Longrightarrow>
   name_scan items = Inr NA \<or> name_scan items = Inl AttributeError"
  by (induction items rule: name_scan.induct)
     (auto simp: dict_get_def split: option.splits)

lemma name_scan_first_match:
  assumes "list_all (\<lambda>x. is_dict x \<and> \<not> name_matches x) pre"
    and "map_of d ''question'' = Some (PStr name_question)"
  shows "name_scan (pre @ PDict d # post) = Inr (dict_get d ''answer'' PNone)"
  using assms
  by (induction pre rule: name_scan.induct)
     (auto simp: dict_get_def split: option.splits)

subsection \<open>From the metadata value to the result\<close>

lemma parse_metadata_decoded:
  "decodes_to loads v d \<Longrightarrow>
   parse_metadata loads v =
     (case extract_fields (PDict d) of Inl e \<Rightarrow> (NA, []) | Inr r \<Rightarrow> r)"
  by (cases v) (auto simp: decodes_to_def parse_metadata_def parse_try_def)

lemma extract_fields_plan_list:
  "map_of d ''plan'' = Some (PList items) \<Longrightarrow>
   extract_fields (PDict d) =
     (case name_scan items of Inl e \<Rightarrow> Inl e | Inr n \<Rightarrow> Inr (n, qa_pairs_of items))"
  by (simp add: extract_fields_def dict_get_def)

text \<open>
  When the name scan ends without an exception, the result is its name and one pair for
  every mapping of the plan, in the order of the plan.
\<close>

lemma parse_metadata_scanned:
  assumes "decodes_to loads v d" and "map_of d ''plan'' = Some (PList items)"
    and "name_scan items = Inr n"
  shows "parse_metadata loads v = (n, qa_pairs_of items)"
  using assms parse_metadata_decoded [of loads v d] extract_fields_plan_list [of d items]
  by simp

text \<open>
  A plan of mappings only: the scan cannot raise, and every element gives its pair.
\<close>

lemma parse_metadata_mappings_only:
  assumes "decodes_to loads v d" and "map_of d ''plan'' = Some (PList items)"
    and "list_all is_dict items"
  shows "snd (parse_metadata loads v) = qa_pairs_of items
         \<and> length (snd (parse_metadata loads v)) = length items"
proof -
  from assms(3) obtain n where "name_scan items = Inr n"
    using name_scan_mappings by blast
  with assms(1,2) have "parse_metadata loads v = (n, qa_pairs_of items)"
    by (rule parse_metadata_scanned)
  moreover from assms(3) have "filter is_dict items = items"
    by (simp add: list_all_iff)
  ultimately show ?thesis
    by (simp add: qa_pairs_of_length)
qed

text \<open>
  When only mappings without the name question come before the first element that has it,
  the name is the \<open>answer\<close> of that element, \<open>None\<close> when the key is absent.
\<close>

lemma parse_metadata_first_match:
  assumes "decodes_to loads v d"
    and "map_of d ''plan'' = Some (PList (pre @ PDict m # post))"
    and "list_all (\<lambda>x. is_dict x \<and> \<not> name_matches x) pre"
    and "map_of m ''question'' = Some (PStr name_question)"
  shows "parse_metadata loads v =
         (dict_get m ''answer'' PNone, qa_pairs_of (pre @ PDict m # post))"
  using assms(1,2) name_scan_first_match [OF assms(3,4)]
  by (rule parse_metadata_scanned)

lemma extract_fields_plan_not_list:
  assumes "\<forall>items. map_of d ''plan'' \<noteq> Some (PList items)"
  shows "(case extract_fields (PDict d) of Inl e \<Rightarrow> (NA, []) | Inr r \<Rightarrow> r) = (NA, [])"
proof (cases "map_of d ''plan''")
  case None
  then show ?thesis by (simp add: extract_fields_def dict_get_def)
next
  case (Some p)
  with assms have nl: "\<not> is_list p" by (cases p) auto
  show ?thesis
  proof (cases p)
    case (PDict kvs)
    then show ?thesis using Some
      by (cases kvs) (auto simp: extract_fields_def dict_get_def)
  next
    case (PStr s)
    then show ?thesis using Some
      by (cases s) (auto simp: extract_fields_def dict_get_def)
  qed (use Some nl in \<open>auto simp: extract_fields_def dict_get_def\<close>)
qed

lemma parse_metadata_decode_error:
  "loads s = Inl e \<Longrightarrow> parse_metadata loads (PStr s) = (NA, [])"
  by (simp add: parse_metadata_def parse_try_def)

lemma parse_metadata_other_type:
  "\<not> is_str v \<Longrightarrow> \<not> is_dict v \<Longrightarrow> parse_metadata loads v = (NA, [])"
  by (cases v) (simp_all add: parse_metadata_def parse_try_def)

subsection \<open>When the body of the try block raises\<close>

lemma py_iter_raises:
  "py_iter p = Inl e \<longleftrightarrow> e = TypeError \<and> \<not> is_list p \<and> \<not> is_dict p \<and> \<not> is_str p"
  by (cases p) auto

lemma name_scan_not_dict: "\<not> is_dict x \<Longrightarrow> name_scan (x # items) = Inl AttributeError"
  by (cases x) simp_all

lemma name_scan_skip:
  "map_of d ''question'' \<noteq> Some (PStr name_question) \<Longrightarrow>
   name_scan (PDict d # items) = name_scan items"
  by (auto simp: dict_get_def split: option.splits)

lemma name_scan_hit:
  "map_of d ''question'' = Some (PStr name_question) \<Longrightarrow>
   name_scan (PDict d # items) = Inr (dict_get d ''answer'' PNone)"
  by (simp add: dict_get_def)

lemma stops_at_non_mapping_Cons:
  "stops_at_non_mapping (x # items) \<longleftrightarrow>
     \<not> is_dict x \<or> (\<not> name_matches x \<and> stops_at_non_mapping items)"
proof
  assume "stops_at_non_mapping (x # items)"
  then obtain pre y post where h: "x # items = pre @ y # post"
    "list_all (\<lambda>y. is_dict y \<and> \<not> name_matches y) pre" "\<not> is_dict y"
    unfolding stops_at_non_mapping_def by blast
  show "\<not> is_dict x \<or> (\<not> name_matches x \<and> stops_at_non_mapping items)"
  proof (cases pre)
    case Nil
    with h show ?thesis by auto
  next
    case (Cons z zs)
    with h have "items = zs @ y # post" "list_all (\<lambda>y. is_dict y \<and> \<not> name_matches y) zs"
      "\<not> name_matches x"
      by simp_all
    with h(3) show ?thesis unfolding stops_at_non_mapping_def by blast
  qed
next
  assume a: "\<not> is_dict x \<or> (\<not> name_matches x \<and> stops_at_non_mapping items)"
  show "stops_at_non_mapping (x # items)"
  proof (cases "is_dict x")
    case False
    then have "x # items = [] @ x # items
      \<and> list_all (\<lambda>y. is_dict y \<and> \<not> name_matches y) [] \<and> \<not> is_dict x"
      by simp
    then show ?thesis unfolding stops_at_non_mapping_def by blast
  next
    case True
    with a obtain pre y post where h: "items = pre @ y # post"
      "list_all (\<lambda>y. is_dict y \<and> \<not> name_matches y) pre" "\<not> is_dict y" "\<not> name_matches x"
      unfolding stops_at_non_mapping_def by blast
    with True have "x # items = (x # pre) @ y # post
      \<and> list_all (\<lambda>y. is_dict y \<and> \<not> name_matches y) (x # pre) \<and> \<not> is_dict y"
      by simp
    then show ?thesis unfolding stops_at_non_mapping_def by blast
  qed
qed

lemma name_scan_raises:
  "name_scan items = Inl e \<longleftrightarrow> e = AttributeError \<and> stops_at_non_mapping items"
proof (induction items)
  case Nil
  then show ?case by (simp add: stops_at_non_mapping_def)
next
  case (Cons x items)
  show ?case
  proof (cases x)
    case (PDict d)
    show ?thesis
    proof (cases "map_of d ''question'' = Some (PStr name_question)")
      case True
      then show ?thesis
        unfolding PDict by (simp add: dict_get_def stops_at_non_mapping_Cons)
    next
      case False
      then show ?thesis
        unfolding PDict name_scan_skip [OF False]
        by (simp add: stops_at_non_mapping_Cons Cons.IH)
    qed
  qed (auto simp: stops_at_non_mapping_Cons)
qed


lemma extract_fields_raises:
  "extract_fields (PDict d) = Inl e \<longleftrightarrow>
     py_iter (dict_get d ''plan'' (PList [])) = Inl e
     \<or> (\<exists>items. py_iter (dict_get d ''plan'' (PList [])) = Inr items \<and> name_scan items = Inl e)"
  by (auto simp: extract_fields_def Let_def split: sum.splits)

lemma plan_not_iterable:
  "py_iter (dict_get d ''plan'' (PList [])) = Inl e \<longleftrightarrow>
     (\<exists>p. map_of d ''plan'' = Some p \<and> \<not> is_list p \<and> \<not> is_dict p \<and> \<not> is_str p
          \<and> e = TypeError)"
  by (cases "map_of d ''plan''") (auto simp: dict_get_def py_iter_raises)

lemma extract_fields_not_dict: "\<not> is_dict data \<Longrightarrow> extract_fields data = Inl AttributeError"
  by (cases data) (simp_all add: extract_fields_def)

lemma parse_try_raises:
  "parse_try loads v = Inl e \<longleftrightarrow>
     (\<exists>s. v = PStr s \<and> loads s = Inl e)
     \<or> (\<exists>s data. v = PStr s \<and> loads s = Inr data \<and> \<not> is_dict data \<and> e = AttributeError)
     \<or> (\<exists>d p. decodes_to loads v d \<and> map_of d ''plan'' = Some p
            \<and> \<not> is_list p \<and> \<not> is_dict p \<and> \<not> is_str p \<and> e = TypeError)
     \<or> (\<exists>d items. decodes_to loads v d
            \<and> py_iter (dict_get d ''plan'' (PList [])) = Inr items
            \<and> stops_at_non_mapping items \<and> e = AttributeError)"
  (is "?L \<longleftrightarrow> ?A \<or> ?B \<or> ?C \<or> ?D")
proof (cases v)
  case (PStr s)
  show ?thesis
  proof (cases "loads s")
    case (Inl e')
    with PStr show ?thesis
      by (auto simp: parse_try_def decodes_to_def)
  next
    case (Inr data)
    show ?thesis
    proof (cases data)
      case (PDict d)
      with PStr Inr show ?thesis
        by (auto simp: parse_try_def decodes_to_def extract_fields_raises plan_not_iterable
              name_scan_raises)
    qed (use PStr Inr in \<open>auto simp: parse_try_def decodes_to_def extract_fields_not_dict\<close>)
  qed
next
  case (PDict d)
  then show ?thesis
    by (auto simp: parse_try_def decodes_to_def extract_fields_raises plan_not_iterable
          name_scan_raises)
qed (auto simp: parse_try_def decodes_to_def)

text \<open>The worked example of the specification, decoded and parsed.\<close>

lemma parse_metadata_alice:
  "parse_metadata json_loads_subset (PStr doc_alice) =
     (PStr ''Alice'', [(PStr name_question, PStr ''Alice''), (PStr ''Age'', PStr ''30'')])"
  by code_simp

subsection \<open>The claims about parse\_metadata\<close>

text \<open>
  C1. For a JSON text whose \<open>plan\<close> is a list, the result has one (question, answer) pair
  for every mapping of the plan, in order, and every other element is skipped without a
  failure. The comprehension of line 41 does skip them, but the name scan of line 42 calls
  \<open>get\<close> on each element it reaches: on the plan \<open>[1, {"question": "Q", "answer": "A"}]\<close>
  the comprehension yields the pair of the mapping, the scan raises at \<open>1\<close>, and the
  function returns the sentinel with no pair at all.
\<close>

theorem parse_metadata_number_before_mapping:
  "json_loads_subset doc_number_first =
     Inr (PDict [(''plan'', PList [PInt 1, PDict [(''question'', PStr ''Q''), (''answer'', PStr ''A'')]])])
   \<and> qa_pairs_of [PInt 1, PDict [(''question'', PStr ''Q''), (''answer'', PStr ''A'')]]
       = [(PStr ''Q'', PStr ''A'')]
   \<and> name_scan [PInt 1, PDict [(''question'', PStr ''Q''), (''answer'', PStr ''A'')]]
       = Inl AttributeError
   \<and> parse_metadata json_loads_subset (PStr doc_number_first) = (NA, [])
   \<and> parse_metadata loads
        (PDict [(''plan'', PList [PInt 1, PDict [(''question'', PStr ''Q''), (''answer'', PStr ''A'')]])])
       = (NA, [])"
  by code_simp

text \<open>
  C2. \<open>parse_metadata\<close> returns a (name, pairs) result for every input and every decoder,
  and whenever the body of its \<open>try\<close> block raises an exception the result is the
  sentinel name with no pairs. The body raises in exactly four cases: the decoder rejects
  the text; the decoded value is not a mapping; the plan is a number, a boolean or null;
  the name scan reaches an element that is not a mapping. Each of them gives the sentinel,
  and so does a missing plan, which raises nothing.
\<close>

theorem parse_metadata_never_raises:
  "(\<exists>name pairs. parse_metadata loads v = (name, pairs))
   \<and> (\<forall>e. parse_try loads v = Inl e \<longrightarrow> parse_metadata loads v = (NA, []))
   \<and> (\<forall>e. parse_try loads v = Inl e \<longleftrightarrow>
          (\<exists>s. v = PStr s \<and> loads s = Inl e)
          \<or> (\<exists>s data. v = PStr s \<and> loads s = Inr data \<and> \<not> is_dict data
                \<and> e = AttributeError)
          \<or> (\<exists>d p. decodes_to loads v d \<and> map_of d ''plan'' = Some p
                \<and> \<not> is_list p \<and> \<not> is_dict p \<and> \<not> is_str p \<and> e = TypeError)
          \<or> (\<exists>d items. decodes_to loads v d
                \<and> py_iter (dict_get d ''plan'' (PList [])) = Inr items
                \<and> stops_at_non_mapping items \<and> e = AttributeError))
   \<and> (\<forall>s e. loads s = Inl e \<longrightarrow> parse_metadata loads (PStr s) = (NA, []))
   \<and> (\<forall>s data. loads s = Inr data \<and> \<not> is_dict data \<longrightarrow>
          parse_metadata loads (PStr s) = (NA, []))
   \<and> (\<forall>d p. decodes_to loads v d \<and> map_of d ''plan'' = Some p \<and> \<not> is_list p \<longrightarrow>
          parse_metadata loads v = (NA, []))
   \<and> (\<forall>d items. decodes_to loads v d \<and> map_of d ''plan'' = Some (PList items)
          \<and> stops_at_non_mapping items \<longrightarrow> parse_metadata loads v = (NA, []))
   \<and> (\<forall>d. decodes_to loads v d \<and> map_of d ''plan'' = None \<longrightarrow>
          parse_metadata loads v = (NA, []))"
proof (intro conjI allI impI)
  show "\<exists>name pairs. parse_metadata loads v = (name, pairs)"
    by (cases "parse_metadata loads v") simp
  show "parse_metadata loads v = (NA, [])" if "parse_try loads v = Inl e" for e
    using that by (simp add: parse_metadata_def)
  show "parse_try loads v = Inl e \<longleftrightarrow>
          (\<exists>s. v = PStr s \<and> loads s = Inl e)
          \<or> (\<exists>s data. v = PStr s \<and> loads s = Inr data \<and> \<not> is_dict data
                \<and> e = AttributeError)
          \<or> (\<exists>d p. decodes_to loads v d \<and> map_of d ''plan'' = Some p
                \<and> \<not> is_list p \<and> \<not> is_dict p \<and> \<not> is_str p \<and> e = TypeError)
          \<or> (\<exists>d items. decodes_to loads v d
                \<and> py_iter (dict_get d ''plan'' (PList [])) = Inr items
                \<and> stops_at_non_mapping items \<and> e = AttributeError)" for e
    by (rule parse_try_raises)
  show "parse_metadata loads (PStr s) = (NA, [])" if "loads s = Inl e" for s e
    using that by (rule parse_metadata_decode_error)
  show "parse_metadata loads (PStr s) = (NA, [])"
    if "loads s = Inr data \<and> \<not> is_dict data" for s data
    using that by (simp add: parse_metadata_def parse_try_def extract_fields_not_dict)
  show "parse_metadata loads v = (NA, [])"
    if h: "decodes_to loads v d \<and> map_of d ''plan'' = Some p \<and> \<not> is_list p" for d p
  proof -
    from h have "\<forall>items. map_of d ''plan'' \<noteq> Some (PList items)"
      by auto
    with h show ?thesis
      using parse_metadata_decoded [of loads v d] extract_fields_plan_not_list [of d]
      by simp
  qed
  show "parse_metadata loads v = (NA, [])"
    if h: "decodes_to loads v d \<and> map_of d ''plan'' = Some (PList items)
          \<and> stops_at_non_mapping items" for d items
  proof -
    from h have "name_scan items = Inl AttributeError"
      by (simp add: name_scan_raises)
    with h show ?thesis
      using parse_metadata_decoded [of loads v d] extract_fields_plan_list [of d items]
      by simp
  qed
  show "parse_metadata loads v = (NA, [])"
    if h: "decodes_to loads v d \<and> map_of d ''plan'' = None" for d
    using h parse_metadata_decoded [of loads v d] extract_fields_plan_not_list [of d]
    by simp
qed

theorem parse_metadata_never_raises_witness:
  "parse_try json_loads_subset (PStr ''not json'') = Inl JSONDecodeError
   \<and> parse_try json_loads_subset (PStr doc_plan_number) = Inl TypeError
   \<and> parse_try json_loads_subset (PStr doc_number_first) = Inl AttributeError
   \<and> parse_metadata json_loads_subset (PStr ''not json'') = (NA, [])
   \<and> parse_metadata json_loads_subset (PStr doc_plan_number) = (NA, [])
   \<and> parse_metadata json_loads_subset (PStr doc_number_first) = (NA, [])
   \<and> parse_metadata json_loads_subset (PStr ''[1, 2]'') = (NA, [])
   \<and> parse_metadata json_loads_subset (PDict [(''version'', PInt 2)]) = (NA, [])"
proof -
  have a: "json_loads_subset ''not json'' = Inl JSONDecodeError"
    by code_simp
  have b: "decodes_to json_loads_subset (PStr doc_plan_number) [(''plan'', PInt 5)]"
    by code_simp
  have b': "map_of [(''plan'', PInt 5)] ''plan'' = Some (PInt 5) \<and> \<not> is_list (PInt 5)
            \<and> \<not> is_dict (PInt 5) \<and> \<not> is_str (PInt 5)"
    by simp
  have c: "decodes_to json_loads_subset (PStr doc_number_first)
             [(''plan'', PList [PInt 1, PDict [(''question'', PStr ''Q''), (''answer'', PStr ''A'')]])]"
    by code_simp
  have c': "py_iter (dict_get
              [(''plan'', PList [PInt 1, PDict [(''question'', PStr ''Q''), (''answer'', PStr ''A'')]])]
              ''plan'' (PList []))
            = Inr [PInt 1, PDict [(''question'', PStr ''Q''), (''answer'', PStr ''A'')]]"
    by (simp add: dict_get_def)
  have c'': "stops_at_non_mapping [PInt 1, PDict [(''question'', PStr ''Q''), (''answer'', PStr ''A'')]]"
    by (simp add: stops_at_non_mapping_Cons)
  have d: "json_loads_subset ''[1, 2]'' = Inr (PList [PInt 1, PInt 2])
           \<and> \<not> is_dict (PList [PInt 1, PInt 2])"
    by code_simp
  have e: "decodes_to json_loads_subset (PDict [(''version'', PInt 2)]) [(''version'', PInt 2)]
           \<and> map_of [(''version'', PInt 2)] ''plan'' = None"
    by (simp add: decodes_to_def)
  note t1 = parse_metadata_never_raises [of json_loads_subset "PStr ''not json''"]
  note t2 = parse_metadata_never_raises [of json_loads_subset "PStr doc_plan_number"]
  note t3 = parse_metadata_never_raises [of json_loads_subset "PStr doc_number_first"]
  note t4 = parse_metadata_never_raises [of json_loads_subset "PDict [(''version'', PInt 2)]"]
  have r1: "parse_try json_loads_subset (PStr ''not json'') = Inl JSONDecodeError"
    using t1 a by blast
  have r2: "parse_try json_loads_subset (PStr doc_plan_number) = Inl TypeError"
    using t2 b b' by blast
  have r3: "parse_try json_loads_subset (PStr doc_number_first) = Inl AttributeError"
    using t3 c c' c'' by blast
  have s1: "parse_metadata json_loads_subset (PStr ''not json'') = (NA, [])"
    using t1 r1 by blast
  have s2: "parse_metadata json_loads_subset (PStr doc_plan_number) = (NA, [])"
    using t2 r2 by blast
  have s3: "parse_metadata json_loads_subset (PStr doc_number_first) = (NA, [])"
    using t3 r3 by blast
  have s4: "parse_metadata json_loads_subset (PStr ''[1, 2]'') = (NA, [])"
    using t1 d by blast
  have s5: "parse_metadata json_loads_subset (PDict [(''version'', PInt 2)]) = (NA, [])"
    using t4 e by blast
  from r1 r2 r3 s1 s2 s3 s4 s5 show ?thesis by blast
qed

text \<open>
  C4. When the plan has an element whose \<open>question\<close> is the name question, the name is the
  \<open>answer\<close> of the first such element. The scan of line 42 lacks the \<open>isinstance\<close> filter
  of line 41: on the plan \<open>[5, {"question": "What's your full name", "answer": "Jane Doe"}]\<close>
  it raises at \<open>5\<close> before it reaches the mapping, and the name returned is the sentinel.
\<close>

theorem parse_metadata_name_after_number:
  "json_loads_subset doc_jane_after_number =
     Inr (PDict [(''plan'', PList [PInt 5,
            PDict [(''question'', PStr name_question), (''answer'', PStr ''Jane Doe'')]])])
   \<and> parse_metadata json_loads_subset (PStr doc_jane_after_number) = (NA, [])
   \<and> parse_metadata loads
        (PDict [(''plan'', PList [PInt 5,
            PDict [(''question'', PStr name_question), (''answer'', PStr ''Jane Doe'')]])])
       = (NA, [])
   \<and> parse_metadata json_loads_subset (PStr doc_jane)
       = (PStr ''Jane Doe'', [(PStr name_question, PStr ''Jane Doe'')])"
  by code_simp

text \<open>
  C6 as stated: a plan without the name question gives exactly the sentinel name and no
  pairs. The plan \<open>[{"question": "Age", "answer": "30"}]\<close> has no name question; its name
  is the sentinel, but its pair is returned.
\<close>

theorem parse_metadata_no_name_question_counterexample:
  "decodes_to json_loads_subset (PStr doc_age)
     [(''plan'', PList [PDict [(''question'', PStr ''Age''), (''answer'', PStr ''30'')]])]
   \<and> \<not> list_ex name_matches [PDict [(''question'', PStr ''Age''), (''answer'', PStr ''30'')]]
   \<and> parse_metadata json_loads_subset (PStr doc_age) = (NA, [(PStr ''Age'', PStr ''30'')])
   \<and> parse_metadata json_loads_subset (PStr doc_age) \<noteq> (NA, [])"
  by code_simp

text \<open>
  C6, amended. For a plan list without the name question the returned name is the sentinel
  (the pairs need not be empty). A text that the decoder rejects, and a value that is
  neither a string nor a mapping, give exactly the sentinel name and no pairs; so does
  \<open>None\<close>.
\<close>

theorem parse_metadata_sentinel_cases:
  "(decodes_to loads v d \<and> map_of d ''plan'' = Some (PList items)
      \<and> \<not> list_ex name_matches items \<longrightarrow> fst (parse_metadata loads v) = NA)
   \<and> (loads s = Inl e \<longrightarrow> parse_metadata loads (PStr s) = (NA, []))
   \<and> (\<not> is_str w \<and> \<not> is_dict w \<longrightarrow> parse_metadata loads w = (NA, []))
   \<and> parse_metadata loads PNone = (NA, [])"
proof (intro conjI impI)
  assume a: "decodes_to loads v d \<and> map_of d ''plan'' = Some (PList items)
      \<and> \<not> list_ex name_matches items"
  then consider "name_scan items = Inr NA" | "name_scan items = Inl AttributeError"
    using name_scan_no_match by blast
  then show "fst (parse_metadata loads v) = NA"
  proof cases
    case 1
    with a show ?thesis
      using parse_metadata_scanned [of loads v d items NA] by simp
  next
    case 2
    with a show ?thesis
      using parse_metadata_decoded [of loads v d] extract_fields_plan_list [of d items]
      by simp
  qed
next
  assume "loads s = Inl e"
  then show "parse_metadata loads (PStr s) = (NA, [])"
    by (rule parse_metadata_decode_error)
next
  assume "\<not> is_str w \<and> \<not> is_dict w"
  then show "parse_metadata loads w = (NA, [])"
    by (simp add: parse_metadata_other_type)
next
  show "parse_metadata loads PNone = (NA, [])"
    by (simp add: parse_metadata_other_type)
qed

theorem parse_metadata_sentinel_cases_witness:
  "fst (parse_metadata json_loads_subset (PStr doc_age)) = NA
   \<and> parse_metadata json_loads_subset (PStr ''not json'') = (NA, [])
   \<and> parse_metadata json_loads_subset (PFloat ''nan'') = (NA, [])
   \<and> parse_metadata json_loads_subset PNone = (NA, [])"
proof -
  have a: "decodes_to json_loads_subset (PStr doc_age)
             [(''plan'', PList [PDict [(''question'', PStr ''Age''), (''answer'', PStr ''30'')]])]"
    by code_simp
  have b: "map_of [(''plan'', PList [PDict [(''question'', PStr ''Age''), (''answer'', PStr ''30'')]])]
             ''plan'' = Some (PList [PDict [(''question'', PStr ''Age''), (''answer'', PStr ''30'')]])"
    by simp
  have c: "\<not> list_ex name_matches [PDict [(''question'', PStr ''Age''), (''answer'', PStr ''30'')]]"
    by code_simp
  have d: "json_loads_subset ''not json'' = Inl JSONDecodeError"
    by code_simp
  have e: "\<not> is_str (PFloat ''nan'') \<and> \<not> is_dict (PFloat ''nan'')"
    by simp
  from a b c d e
    parse_metadata_sentinel_cases [of json_loads_subset "PStr doc_age"
      "[(''plan'', PList [PDict [(''question'', PStr ''Age''), (''answer'', PStr ''30'')]])]"
      "[PDict [(''question'', PStr ''Age''), (''answer'', PStr ''30'')]]"
      "''not json''" JSONDecodeError "PFloat ''nan''"]
  show ?thesis by blast
qed

text \<open>
  C7. A mapping without a \<open>plan\<close> key, and a mapping whose \<open>plan\<close> is not a list, give the
  sentinel name and no pairs: the result of the same mapping with an empty plan, and the
  result of a text that the decoder rejects.
\<close>

theorem parse_metadata_plan_absent_or_not_list:
  assumes "decodes_to loads v d"
    and "\<forall>items. map_of d ''plan'' \<noteq> Some (PList items)"
    and "loads bad = Inl e"
  shows "parse_metadata loads v = (NA, [])
         \<and> parse_metadata loads v
             = parse_metadata loads (PDict (AList.update ''plan'' (PList []) d))
         \<and> parse_metadata loads v = parse_metadata loads (PStr bad)"
proof -
  have r: "parse_metadata loads v = (NA, [])"
    using assms(1,2) parse_metadata_decoded [of loads v d] extract_fields_plan_not_list [of d]
    by simp
  have "decodes_to loads (PDict (AList.update ''plan'' (PList []) d))
          (AList.update ''plan'' (PList []) d)"
    by (simp add: decodes_to_def)
  moreover have "map_of (AList.update ''plan'' (PList []) d) ''plan'' = Some (PList [])"
    by (simp add: update_conv')
  moreover have "name_scan [] = Inr NA"
    by simp
  ultimately have
    "parse_metadata loads (PDict (AList.update ''plan'' (PList []) d)) = (NA, qa_pairs_of [])"
    by (rule parse_metadata_scanned)
  with r assms(3) show ?thesis
    by (simp add: parse_metadata_decode_error)
qed

theorem parse_metadata_plan_absent_or_not_list_witness:
  "parse_metadata json_loads_subset (PStr doc_plan_number) = (NA, [])
   \<and> parse_metadata json_loads_subset (PStr doc_plan_number)
       = parse_metadata json_loads_subset (PDict (AList.update ''plan'' (PList []) [(''plan'', PInt 5)]))
   \<and> parse_metadata json_loads_subset (PStr doc_plan_number)
       = parse_metadata json_loads_subset (PStr ''not json'')
   \<and> parse_metadata json_loads_subset (PDict [(''version'', PInt 2)]) = (NA, [])
   \<and> parse_metadata json_loads_subset (PDict [(''version'', PInt 2)])
       = parse_metadata json_loads_subset (PStr ''not json'')"
proof -
  have a: "decodes_to json_loads_subset (PStr doc_plan_number) [(''plan'', PInt 5)]"
    by code_simp
  have b: "\<forall>items. map_of [(''plan'', PInt 5)] ''plan'' \<noteq> Some (PList items)"
    by simp
  have c: "json_loads_subset ''not json'' = Inl JSONDecodeError"
    by code_simp
  have a': "decodes_to json_loads_subset (PDict [(''version'', PInt 2)]) [(''version'', PInt 2)]"
    by (simp add: decodes_to_def)
  have b': "\<forall>items. map_of [(''version'', PInt 2)] ''plan'' \<noteq> Some (PList items)"
    by simp
  from parse_metadata_plan_absent_or_not_list [OF a b c]
    parse_metadata_plan_absent_or_not_list [OF a' b' c]
  show ?thesis by blast
qed

text \<open>
  C8. The \<open>"N/A"\<close> defaults are for absent keys only: a pair keeps an explicit null answer,
  and the name is \<open>None\<close> when the first element with the name question has no answer
  (or a null one). On the plan \<open>[{"question": "What's your full name"}]\<close> the name is
  \<open>None\<close>; on \<open>[5, {"question": "What's your full name"}]\<close> the scan of line 42 raises at
  \<open>5\<close>, which the filter of line 41 skips, and the name returned is the sentinel.
\<close>

theorem parse_metadata_missing_answer_after_number:
  "json_loads_subset doc_no_answer_after_number =
     Inr (PDict [(''plan'', PList [PInt 5, PDict [(''question'', PStr name_question)]])])
   \<and> parse_metadata json_loads_subset (PStr doc_no_answer_after_number) = (NA, [])
   \<and> parse_metadata loads
        (PDict [(''plan'', PList [PInt 5, PDict [(''question'', PStr name_question)]])])
       = (NA, [])
   \<and> parse_metadata json_loads_subset (PStr doc_no_answer)
       = (PNone, [(PStr name_question, NA)])
   \<and> parse_metadata json_loads_subset
        (PDict [(''plan'', PList [PDict [(''question'', PStr ''Age''), (''answer'', PNone)]])])
       = (NA, [(PStr ''Age'', PNone)])"
  by code_simp

section \<open>Properties of the filters\<close>

subsection \<open>Masks built from a predicate\<close>

lemma mask_select_map: "mask_select (map P df) df = filter P df"
  by (induction df) (simp_all add: mask_select_def)

lemma mask_and_map: "mask_and (map P xs) (map Q xs) = map (\<lambda>x. P x \<and> Q x) xs"
  by (induction xs) (simp_all add: mask_and_def)

lemma mask_or_map: "mask_or (map P xs) (map Q xs) = map (\<lambda>x. P x \<or> Q x) xs"
  by (induction xs) (simp_all add: mask_or_def)

lemma date_filtered_filter:
  "date_filtered s e df =
     filter (\<lambda>r. s \<le> dt_date (created_at r) \<and> dt_date (created_at r) \<le> e) df"
  by (simp add: date_filtered_def comp_def mask_and_map mask_select_map)

subsection \<open>Patterns without special characters\<close>

lemma re_literal_simple: "re_literal q \<Longrightarrow> re_simple q"
  by (induction q) (simp_all add: re_literal_def re_simple_def)

lemma re_literal_Cons:
  "re_literal (p # ps) \<longleftrightarrow> p \<noteq> CHR ''.'' \<and> p \<notin> set re_metachars \<and> re_literal ps"
  by (simp add: re_literal_def)

lemma re_match_here_literal:
  "re_literal q \<Longrightarrow> re_match_here fc False q s = prefix q s"
  by (induction fc False q s rule: re_match_here.induct) (auto simp: re_literal_Cons)

lemma re_match_here_literal_ignorecase:
  "re_literal q \<Longrightarrow> re_match_here fc True q s = prefix (map fc q) (map fc s)"
  by (induction fc True q s rule: re_match_here.induct) (auto simp: re_literal_Cons)

lemma re_search_literal: "re_literal q \<Longrightarrow> re_search fc False q s = sublist q s"
  by (induction s) (auto simp: re_match_here_literal sublist_Cons_right)

lemma re_search_literal_ignorecase:
  "re_literal q \<Longrightarrow> re_search fc True q s = contains_ignoring_case fc q s"
  by (induction s)
     (auto simp: re_match_here_literal_ignorecase sublist_Cons_right contains_ignoring_case_def)

lemma re_search_empty_pattern: "re_search fc ignorecase [] s"
  by (cases s) simp_all

subsection \<open>The accessor\<close>

lemma str_accessor_text: "list_ex is_str series \<Longrightarrow> str_accessor lib series = Inr ()"
  by (simp add: str_accessor_def)

lemma str_accessor_error:
  "str_accessor lib series = Inl e \<Longrightarrow> e = AttributeError \<and> \<not> list_ex is_str series"
  by (auto simp: str_accessor_def split: if_splits)

lemma str_accessor_numbers:
  assumes "\<not> list_ex is_str series" and "list_ex is_number series"
    and "list_all (\<lambda>v. is_number v \<or> v = PNone) series"
  shows "str_accessor lib series = Inl AttributeError"
  using assms by (simp add: str_accessor_def)

subsection \<open>The search filter as a selection\<close>

lemma search_filtered_compiled:
  assumes "q \<noteq> []"
    and "str_accessor lib (map name df) = Inr ()"
    and "re_compile lib q True = Inr f"
    and "re_compile lib q False = Inr g"
  shows "search_filtered lib q df =
         Inr (filter (\<lambda>r. (case name r of PStr s \<Rightarrow> f s | _ \<Rightarrow> False)
                           \<or> g (str_of_ident (id_field r))) df)"
  using assms
  by (simp add: search_filtered_def str_contains_def text_contains_def astype_str_def comp_def
        mask_or_map mask_select_map)

lemma search_filtered_error:
  assumes "search_filtered lib q df = Inl err"
  shows "q \<noteq> []
         \<and> (err = AttributeError \<and> \<not> list_ex is_str (map name df)
            \<or> re_compile lib q True = Inl err \<or> re_compile lib q False = Inl err)"
proof -
  from assms have q: "q \<noteq> []"
    by (auto simp: search_filtered_def split: if_splits)
  show ?thesis
  proof (cases "str_accessor lib (map name df)")
    case (Inl e)
    with assms q have "err = e"
      by (simp add: search_filtered_def str_contains_def)
    with Inl str_accessor_error [of lib "map name df" e] q show ?thesis
      by simp
  next
    case (Inr u)
    with assms q show ?thesis
      by (auto simp: search_filtered_def str_contains_def text_contains_def split: sum.splits)
  qed
qed

lemma search_filtered_result:
  assumes "search_filtered lib q df = Inr out"
  shows "q = [] \<and> out = df
         \<or> (\<exists>f g. q \<noteq> [] \<and> str_accessor lib (map name df) = Inr ()
              \<and> re_compile lib q True = Inr f \<and> re_compile lib q False = Inr g
              \<and> out = filter (\<lambda>r. (case name r of PStr s \<Rightarrow> f s | _ \<Rightarrow> False)
                                    \<or> g (str_of_ident (id_field r))) df)"
proof (cases "q = []")
  case True
  with assms show ?thesis by (simp add: search_filtered_def)
next
  case False
  from assms False have a: "str_accessor lib (map name df) = Inr ()"
    by (auto simp: search_filtered_def str_contains_def split: sum.splits)
  from assms False obtain f where f: "re_compile lib q True = Inr f"
    by (auto simp: search_filtered_def str_contains_def split: sum.splits)
  from assms False obtain g where g: "re_compile lib q False = Inr g"
    by (auto simp: search_filtered_def str_contains_def text_contains_def split: sum.splits)
  from assms search_filtered_compiled [OF False a f g] False a f g
  show ?thesis by auto
qed

lemma search_filtered_subseq:
  assumes "search_filtered lib q df = Inr out"
  shows "subseq out df"
  using search_filtered_result [OF assms] by auto

lemma search_filtered_literal:
  assumes "re_literal q" and "q = [] \<or> list_ex is_str (map name df)"
  shows "search_filtered lib q df = Inr (filter (spec_search_keeps (casefold lib) q) df)"
proof (cases "q = []")
  case True
  then show ?thesis by (simp add: search_filtered_def spec_search_keeps_def)
next
  case False
  with assms(2) have a: "str_accessor lib (map name df) = Inr ()"
    by (simp add: str_accessor_text)
  have s: "re_simple q"
    using assms(1) by (rule re_literal_simple)
  have c1: "re_compile lib q True = Inr (re_search (casefold lib) True q)"
    using s by (simp add: re_compile_def)
  have c2: "re_compile lib q False = Inr (re_search (casefold lib) False q)"
    using s by (simp add: re_compile_def)
  have eq: "(\<lambda>r. (case name r of PStr s \<Rightarrow> re_search (casefold lib) True q s | _ \<Rightarrow> False)
                 \<or> re_search (casefold lib) False q (str_of_ident (id_field r)))
            = spec_search_keeps (casefold lib) q"
    by (rule ext)
       (simp add: spec_search_keeps_def re_search_literal [OF assms(1)]
          re_search_literal_ignorecase [OF assms(1)] split: pyval.splits)
  show ?thesis
    unfolding search_filtered_compiled [OF False a c1 c2] eq ..
qed

subsection \<open>The example frames\<close>

lemma example_frame: "process_df json_loads_subset example_db = Inr example_df"
  by code_simp

lemma numeric_frame: "process_df json_loads_subset numeric_db = Inr numeric_df"
  by code_simp

lemma example_library_fields:
  "re_other example_library = re_unsupported"
  "str_accepts_other example_library = str_refused"
  "casefold example_library = ascii_lower"
  by (simp_all add: example_library_def)

subsection \<open>The claims about the filters\<close>

text \<open>
  C3 as stated: a record is kept exactly when its name contains the query ignoring case or
  the string form of its identifier contains the query literally. The query is compiled
  as a regular expression: the query \<open>.\<close> keeps the record with name \<open>N/A\<close> and
  identifier 108, neither of which contains a dot. And where no name is a string the
  accessor can refuse the column: on the frame with the names \<open>None\<close> and 5 the query
  \<open>5\<close> raises, though the identifier 15 contains it.
\<close>

theorem search_filtered_dot_counterexample:
  "search_filtered example_library ''.'' [row_broken] = Inr [row_broken]
   \<and> \<not> spec_search_keeps ascii_lower ''.'' row_broken
   \<and> process_df json_loads_subset numeric_db = Inr numeric_df
   \<and> search_filtered example_library ''5'' numeric_df = Inl AttributeError
   \<and> spec_search_keeps ascii_lower ''5'' row_five"
  by code_simp

text \<open>
  C3, amended. The query is read as a regular expression. When the accessor accepts the
  name column, as it does whenever a name is a string, a record is kept exactly when its
  name is a string in which the pattern matches somewhere ignoring case, or the pattern
  matches somewhere, case-sensitively, in the string form of its identifier; the two tests
  are combined by OR. For a query without special characters these are the substring test
  ignoring case, which depends on the query and on the name only up to case, and the
  literal substring test.
\<close>

theorem search_filtered_by_pattern:
  "(q \<noteq> [] \<and> str_accessor lib (map name df) = Inr ()
      \<and> re_compile lib q True = Inr f \<and> re_compile lib q False = Inr g \<longrightarrow>
      search_filtered lib q df =
        Inr (filter (\<lambda>r. (case name r of PStr s \<Rightarrow> f s | _ \<Rightarrow> False)
                          \<or> g (str_of_ident (id_field r))) df))
   \<and> (re_literal q \<and> (q = [] \<or> list_ex is_str (map name df)) \<longrightarrow>
        search_filtered lib q df = Inr (filter (spec_search_keeps (casefold lib) q) df))
   \<and> (re_literal q \<and> re_literal q' \<and> map (casefold lib) q = map (casefold lib) q'
        \<and> map (casefold lib) s = map (casefold lib) s' \<longrightarrow>
          re_search (casefold lib) True q s = re_search (casefold lib) True q' s')"
proof (intro conjI impI)
  assume "q \<noteq> [] \<and> str_accessor lib (map name df) = Inr ()
      \<and> re_compile lib q True = Inr f \<and> re_compile lib q False = Inr g"
  then show "search_filtered lib q df =
        Inr (filter (\<lambda>r. (case name r of PStr s \<Rightarrow> f s | _ \<Rightarrow> False)
                          \<or> g (str_of_ident (id_field r))) df)"
    using search_filtered_compiled [of q lib df f g] by blast
next
  assume "re_literal q \<and> (q = [] \<or> list_ex is_str (map name df))"
  then show "search_filtered lib q df = Inr (filter (spec_search_keeps (casefold lib) q) df)"
    using search_filtered_literal [of q df lib] by blast
next
  assume "re_literal q \<and> re_literal q' \<and> map (casefold lib) q = map (casefold lib) q'
        \<and> map (casefold lib) s = map (casefold lib) s'"
  then show "re_search (casefold lib) True q s = re_search (casefold lib) True q' s'"
    by (simp add: re_search_literal_ignorecase contains_ignoring_case_def)
qed

theorem search_filtered_by_pattern_witness:
  "search_filtered example_library ''j.ne'' example_df = Inr [row_jane]
   \<and> search_filtered example_library ''JANE d'' example_df = Inr [row_jane]
   \<and> search_filtered example_library ''n/a'' example_df = Inr [row_broken]
   \<and> search_filtered example_library ''4'' example_df = Inr [row_unnamed]
   \<and> re_search ascii_lower True ''JANE d'' ''Jane Doe''
       = re_search ascii_lower True ''jane D'' ''JANE DOE''"
proof -
  have n: "list_ex is_str (map name example_df)"
    by code_simp
  have a: "str_accessor example_library (map name example_df) = Inr ()"
    using n by (rule str_accessor_text)
  have c1: "re_compile example_library ''j.ne'' True = Inr (re_search ascii_lower True ''j.ne'')"
    by (simp add: re_compile_def re_simple_def re_metachars_def example_library_fields)
  have c2: "re_compile example_library ''j.ne'' False = Inr (re_search ascii_lower False ''j.ne'')"
    by (simp add: re_compile_def re_simple_def re_metachars_def example_library_fields)
  have k1: "filter (\<lambda>r. (case name r of PStr s \<Rightarrow> re_search ascii_lower True ''j.ne'' s | _ \<Rightarrow> False)
                         \<or> re_search ascii_lower False ''j.ne'' (str_of_ident (id_field r))) example_df
            = [row_jane]"
    by code_simp
  have l2: "re_literal ''JANE d''" and l2': "re_literal ''jane D''"
    and l3: "re_literal ''n/a''" and l4: "re_literal ''4''"
    by code_simp+
  have k2: "filter (spec_search_keeps ascii_lower ''JANE d'') example_df = [row_jane]"
    by code_simp
  have k3: "filter (spec_search_keeps ascii_lower ''n/a'') example_df = [row_broken]"
    by code_simp
  have k4: "filter (spec_search_keeps ascii_lower ''4'') example_df = [row_unnamed]"
    by code_simp
  have f5: "map ascii_lower ''JANE d'' = map ascii_lower ''jane D''"
    and f6: "map ascii_lower ''Jane Doe'' = map ascii_lower ''JANE DOE''"
    by code_simp+
  from a c1 c2 k1
    search_filtered_by_pattern [of "''j.ne''" example_library example_df
      "re_search ascii_lower True ''j.ne''" "re_search ascii_lower False ''j.ne''"]
  have r1: "search_filtered example_library ''j.ne'' example_df = Inr [row_jane]"
    by simp
  from n l2 l2' k2 f5 f6
    search_filtered_by_pattern [of "''JANE d''" example_library example_df _ _ "''jane D''"
      "''Jane Doe''" "''JANE DOE''"]
  have r2: "search_filtered example_library ''JANE d'' example_df = Inr [row_jane]
            \<and> re_search ascii_lower True ''JANE d'' ''Jane Doe''
                = re_search ascii_lower True ''jane D'' ''JANE DOE''"
    by (simp add: example_library_fields)
  from n l3 k3 search_filtered_by_pattern [of "''n/a''" example_library example_df]
  have r3: "search_filtered example_library ''n/a'' example_df = Inr [row_broken]"
    by (simp add: example_library_fields)
  from n l4 k4 search_filtered_by_pattern [of "''4''" example_library example_df]
  have r4: "search_filtered example_library ''4'' example_df = Inr [row_unnamed]"
    by (simp add: example_library_fields)
  from r1 r2 r3 r4 show ?thesis by blast
qed

text \<open>
  C5. The date filter keeps exactly the records whose submission date lies between the
  start and the end of the range, both included: a record dated on the start day or on the
  end day of a range is kept, and a record dated before the start or after the end is not.
\<close>

theorem date_filtered_inclusive:
  "date_filtered start_date end_date df =
     filter (\<lambda>r. start_date \<le> dt_date (created_at r) \<and> dt_date (created_at r) \<le> end_date) df
   \<and> (r \<in> set df \<and> start_date \<le> end_date
        \<and> (dt_date (created_at r) = start_date \<or> dt_date (created_at r) = end_date) \<longrightarrow>
          r \<in> set (date_filtered start_date end_date df))
   \<and> (dt_date (created_at r) < start_date \<or> end_date < dt_date (created_at r) \<longrightarrow>
          r \<notin> set (date_filtered start_date end_date df))"
  by (auto simp: date_filtered_filter)

theorem date_filtered_inclusive_witness:
  "date_filtered 19675 19677 example_df = [row_jane, row_unnamed]
   \<and> dt_date (created_at row_jane) = 19675
   \<and> dt_date (created_at row_unnamed) = 19677
   \<and> dt_date (created_at row_broken) = 19678
   \<and> row_jane \<in> set (date_filtered 19675 19677 example_df)
   \<and> row_unnamed \<in> set (date_filtered 19675 19677 example_df)
   \<and> row_broken \<notin> set (date_filtered 19675 19677 example_df)"
proof -
  have d1: "dt_date (created_at row_jane) = 19675"
    and d2: "dt_date (created_at row_unnamed) = 19677"
    and d3: "dt_date (created_at row_broken) = 19678"
    by (simp_all add: dt_date_def row_jane_def row_unnamed_def row_broken_def)
  have m1: "row_jane \<in> set example_df" and m2: "row_unnamed \<in> set example_df"
    by (simp_all add: example_df_def)
  have k: "filter (\<lambda>r. 19675 \<le> dt_date (created_at r) \<and> dt_date (created_at r) \<le> 19677)
             example_df = [row_jane, row_unnamed]"
    by (simp add: example_df_def d1 d2 d3)
  have e: "date_filtered 19675 19677 example_df = [row_jane, row_unnamed]"
    using date_filtered_inclusive [of 19675 19677 example_df row_jane] k by simp
  have i1: "row_jane \<in> set (date_filtered 19675 19677 example_df)"
    using date_filtered_inclusive [of 19675 19677 example_df row_jane] m1 d1 by simp
  have i2: "row_unnamed \<in> set (date_filtered 19675 19677 example_df)"
    using date_filtered_inclusive [of 19675 19677 example_df row_unnamed] m2 d2 by simp
  have o: "row_broken \<notin> set (date_filtered 19675 19677 example_df)"
    using date_filtered_inclusive [of 19675 19677 example_df row_broken] d3 by simp
  from e d1 d2 d3 i1 i2 o show ?thesis by blast
qed

text \<open>
  C9. The filters only remove records. The date-filtered frame is a subsequence of the
  loaded frame; whenever the search filter returns a frame it is a subsequence of its
  input; so the frame filtered by both consists of records of the loaded frame, unchanged
  and in their order. For an empty query, and for a query of the modelled fragment on a
  date-filtered frame in which some name is a string, the filters do return a frame.
\<close>

theorem filtered_df_subseq:
  "subseq (date_filtered start_date end_date df) df
   \<and> (\<forall>out. search_filtered lib q df = Inr out \<longrightarrow> subseq out df)
   \<and> (\<forall>out. filtered_df lib start_date end_date q df = Inr out \<longrightarrow>
         subseq out df \<and> set out \<subseteq> set df)
   \<and> (re_simple q
        \<and> (q = [] \<or> list_ex is_str (map name (date_filtered start_date end_date df))) \<longrightarrow>
         (\<exists>out. filtered_df lib start_date end_date q df = Inr out))"
proof (intro conjI allI impI)
  show d: "subseq (date_filtered start_date end_date df) df"
    by (simp add: date_filtered_filter)
  show "subseq out df" if "search_filtered lib q df = Inr out" for out
    using that by (rule search_filtered_subseq)
  show s: "subseq out df" if "filtered_df lib start_date end_date q df = Inr out" for out
  proof -
    from that have "subseq out (date_filtered start_date end_date df)"
      unfolding filtered_df_def by (rule search_filtered_subseq)
    then show ?thesis using d by (rule subseq_order.trans)
  qed
  show "set out \<subseteq> set df" if "filtered_df lib start_date end_date q df = Inr out" for out
    using s [OF that] by (auto elim: list_emb_set)
  show "\<exists>out. filtered_df lib start_date end_date q df = Inr out"
    if h: "re_simple q
        \<and> (q = [] \<or> list_ex is_str (map name (date_filtered start_date end_date df)))"
  proof (cases "q = []")
    case True
    then show ?thesis by (simp add: filtered_df_def search_filtered_def)
  next
    case False
    with h have "str_accessor lib (map name (date_filtered start_date end_date df)) = Inr ()"
      by (simp add: str_accessor_text)
    with h False show ?thesis
      by (simp add: filtered_df_def search_filtered_def str_contains_def text_contains_def
            re_compile_def)
  qed
qed

theorem filtered_df_subseq_witness:
  "filtered_df example_library 19675 19677 ''4'' example_df = Inr [row_unnamed]
   \<and> subseq [row_unnamed] example_df
   \<and> set [row_unnamed] \<subseteq> set example_df
   \<and> subseq (date_filtered 19675 19677 example_df) example_df"
proof -
  have a: "filtered_df example_library 19675 19677 ''4'' example_df = Inr [row_unnamed]"
    by code_simp
  from a filtered_df_subseq [of 19675 19677 example_df example_library "''4''"]
  show ?thesis by blast
qed

text \<open>
  C10 as stated: a record whose name is missing never makes the name test raise. The two
  stored responses of \<open>numeric_db\<close> give the names \<open>None\<close> and 5; the name column of
  that frame holds no string, the accessor refuses it, and the search for \<open>5\<close> raises
  \<open>AttributeError\<close> instead of keeping or dropping the record without a name.
\<close>

theorem search_filtered_numeric_names_counterexample:
  "process_df json_loads_subset numeric_db = Inr numeric_df
   \<and> row_unnamed \<in> set numeric_df
   \<and> name row_unnamed = PNone
   \<and> search_filtered example_library ''5'' numeric_df = Inl AttributeError"
  by code_simp

text \<open>
  C10, amended. With an empty query the search filter is not applied: every record, and so
  every date-filtered record, is kept. Where the accessor accepts the name column, as it
  does whenever a name is a string, a missing name is a non-match of the name test and not
  an error. The search raises only when the pattern does not compile, or when no name of
  the searched frame is a string and the accessor refuses the column. Whenever the search
  returns, a record without a name is kept exactly when the string form of its identifier
  matches the query.
\<close>

theorem search_filtered_empty_query_missing_name:
  "search_filtered lib [] df = Inr df
   \<and> filtered_df lib start_date end_date [] df = Inr (date_filtered start_date end_date df)
   \<and> (str_accessor lib series = Inr () \<and> re_compile lib q True = Inr f \<longrightarrow>
        str_contains lib q False False series
          = Inr (map (\<lambda>v. case v of PStr s \<Rightarrow> f s | _ \<Rightarrow> False) series))
   \<and> (list_ex is_str series \<and> re_compile lib q True = Inr f \<longrightarrow>
        (\<exists>m. str_contains lib q False False (PNone # series) = Inr (False # m)))
   \<and> (\<forall>err. search_filtered lib q df = Inl err \<longrightarrow>
         q \<noteq> []
         \<and> (err = AttributeError \<and> \<not> list_ex is_str (map name df)
            \<or> re_compile lib q True = Inl err \<or> re_compile lib q False = Inl err))
   \<and> (\<forall>out. search_filtered lib q df = Inr out \<and> r \<in> set df \<and> name r = PNone \<longrightarrow>
         (r \<in> set out \<longleftrightarrow>
            (\<exists>g. re_compile lib q False = Inr g \<and> g (str_of_ident (id_field r)))))"
proof (intro conjI allI impI)
  show "search_filtered lib [] df = Inr df"
    by (simp add: search_filtered_def)
  show "filtered_df lib start_date end_date [] df = Inr (date_filtered start_date end_date df)"
    by (simp add: filtered_df_def search_filtered_def)
  show "str_contains lib q False False series
          = Inr (map (\<lambda>v. case v of PStr s \<Rightarrow> f s | _ \<Rightarrow> False) series)"
    if "str_accessor lib series = Inr () \<and> re_compile lib q True = Inr f"
    using that by (simp add: str_contains_def)
  show "\<exists>m. str_contains lib q False False (PNone # series) = Inr (False # m)"
    if "list_ex is_str series \<and> re_compile lib q True = Inr f"
    using that by (simp add: str_contains_def str_accessor_def)
  show "q \<noteq> []" if "search_filtered lib q df = Inl err" for err
    using search_filtered_error [OF that] by simp
  show "err = AttributeError \<and> \<not> list_ex is_str (map name df)
        \<or> re_compile lib q True = Inl err \<or> re_compile lib q False = Inl err"
    if "search_filtered lib q df = Inl err" for err
    using search_filtered_error [OF that] by simp
  show "r \<in> set out \<longleftrightarrow> (\<exists>g. re_compile lib q False = Inr g \<and> g (str_of_ident (id_field r)))"
    if h: "search_filtered lib q df = Inr out \<and> r \<in> set df \<and> name r = PNone" for out
  proof (cases "q = []")
    case True
    with h have "out = df"
      by (simp add: search_filtered_def)
    moreover from True
    have "re_compile lib q False = Inr (re_search (casefold lib) False [])"
      by (simp add: re_compile_def re_simple_def)
    ultimately show ?thesis
      using h by (simp add: re_search_empty_pattern)
  next
    case False
    with h search_filtered_result [of lib q df out] show ?thesis
      by auto
  qed
qed

theorem search_filtered_empty_query_missing_name_witness:
  "search_filtered example_library [] example_df = Inr example_df
   \<and> filtered_df example_library 19675 19677 [] example_df = Inr [row_jane, row_unnamed]
   \<and> name row_unnamed = PNone
   \<and> str_contains example_library ''jane'' False False (map name example_df)
       = Inr [True, False, False]
   \<and> search_filtered example_library ''jane'' example_df = Inr [row_jane]
   \<and> row_unnamed \<notin> set [row_jane]
   \<and> search_filtered example_library ''4'' example_df = Inr [row_unnamed]
   \<and> row_unnamed \<in> set [row_unnamed]
   \<and> (\<exists>m. str_contains example_library ''jane'' False False [PNone, PStr ''Jane Doe'']
            = Inr (False # m))"
proof -
  have s: "list_ex is_str (map name example_df)"
    by code_simp
  have s': "list_ex is_str [PStr ''Jane Doe'']"
    by simp
  have a: "str_accessor example_library (map name example_df) = Inr ()"
    using s by (rule str_accessor_text)
  have c: "re_compile example_library ''jane'' True = Inr (re_search ascii_lower True ''jane'')"
    by (simp add: re_compile_def re_simple_def re_metachars_def example_library_fields)
  have k: "map (\<lambda>v. case v of PStr s \<Rightarrow> re_search ascii_lower True ''jane'' s | _ \<Rightarrow> False)
             (map name example_df) = [True, False, False]"
    by code_simp
  have d: "date_filtered 19675 19677 example_df = [row_jane, row_unnamed]"
    by code_simp
  have j: "search_filtered example_library ''jane'' example_df = Inr [row_jane]"
    by code_simp
  have b: "search_filtered example_library ''4'' example_df = Inr [row_unnamed]"
    by code_simp
  have n: "name row_unnamed = PNone"
    by (simp add: row_unnamed_def)
  have x: "row_unnamed \<notin> set [row_jane]"
    by (simp add: row_unnamed_def row_jane_def)
  from a c d j b n x k
    search_filtered_empty_query_missing_name [of example_library example_df 19675 19677
      "map name example_df" "''jane''" "re_search ascii_lower True ''jane''" row_unnamed]
  have r1: "search_filtered example_library [] example_df = Inr example_df
   \<and> filtered_df example_library 19675 19677 [] example_df = Inr [row_jane, row_unnamed]
   \<and> name row_unnamed = PNone
   \<and> str_contains example_library ''jane'' False False (map name example_df)
       = Inr [True, False, False]
   \<and> search_filtered example_library ''jane'' example_df = Inr [row_jane]
   \<and> row_unnamed \<notin> set [row_jane]
   \<and> search_filtered example_library ''4'' example_df = Inr [row_unnamed]
   \<and> row_unnamed \<in> set [row_unnamed]"
    by simp
  from s' c
    search_filtered_empty_query_missing_name [of example_library example_df 19675 19677
      "[PStr ''Jane Doe'']" "''jane''" "re_search ascii_lower True ''jane''" row_unnamed]
  have r2: "\<exists>m. str_contains example_library ''jane'' False False [PNone, PStr ''Jane Doe'']
            = Inr (False # m)"
    by blast
  from r1 r2 show ?thesis by blast
qed

end
